theory Spec2Isabelle
  imports Main
begin

section \<open>The runtime values the client computes with\<close>

text \<open>
  The source is \<^verbatim>\<open>src/node/src/webuntis.js\<close>, one class \<^verbatim>\<open>WebUntis\<close>.
  Its numbers are the results of \<^verbatim>\<open>parseInt\<close> and of adding one to them: an integer
  or \<^verbatim>\<open>NaN\<close>. Fractions, infinities and integers beyond the exactly representable range
  do not arise from the inputs modelled here (compact dates and times of a few digits).
\<close>

datatype jsnum = NaN | Num int

text \<open>\<^verbatim>\<open>x + 1\<close> on a number.\<close>

fun js_add :: "jsnum \<Rightarrow> int \<Rightarrow> jsnum" where
  "js_add NaN k = NaN"
| "js_add (Num n) k = Num (n + k)"

text \<open>\<^verbatim>\<open>a - b\<close> on two numbers.\<close>

fun js_sub :: "jsnum \<Rightarrow> jsnum \<Rightarrow> jsnum" where
  "js_sub (Num a) (Num b) = Num (a - b)"
| "js_sub a b = NaN"

text \<open>
  A compact date or time arrives as a number or as a string (the source's
  \<^verbatim>\<open>@param {String | Number}\<close>).
\<close>

datatype untis = UNum int | UStr string

subsection \<open>Number to string\<close>

definition digit_char :: "nat \<Rightarrow> char" where
  "digit_char d =
     (if d = 0 then CHR ''0'' else if d = 1 then CHR ''1'' else if d = 2 then CHR ''2''
      else if d = 3 then CHR ''3'' else if d = 4 then CHR ''4'' else if d = 5 then CHR ''5''
      else if d = 6 then CHR ''6'' else if d = 7 then CHR ''7'' else if d = 8 then CHR ''8''
      else CHR ''9'')"

fun nat_toString :: "nat \<Rightarrow> string" where
  "nat_toString n =
     (if n < 10 then [digit_char n] else nat_toString (n div 10) @ [digit_char (n mod 10)])"

declare nat_toString.simps [simp del]

text \<open>\<^verbatim>\<open>Number.prototype.toString()\<close> on an integer: decimal digits, a minus sign first.\<close>

definition int_toString :: "int \<Rightarrow> string" where
  "int_toString i = (if i < 0 then CHR ''-'' # nat_toString (nat (- i)) else nat_toString (nat i))"

fun num_toString :: "jsnum \<Rightarrow> string" where
  "num_toString NaN = ''NaN''"
| "num_toString (Num i) = int_toString i"

text \<open>\<^verbatim>\<open>untisTime.toString()\<close>: a string is returned as it is.\<close>

fun toString :: "untis \<Rightarrow> string" where
  "toString (UNum i) = int_toString i"
| "toString (UStr s) = s"

subsection \<open>String methods\<close>

text \<open>\<^verbatim>\<open>s.padStart(n, c)\<close> with a one-character filler.\<close>

definition padStart :: "nat \<Rightarrow> char \<Rightarrow> string \<Rightarrow> string" where
  "padStart n c s = replicate (n - length s) c @ s"

text \<open>\<^verbatim>\<open>s.slice(a, b)\<close> for \<open>0 \<le> a \<le> b\<close>, the only way the source calls it.\<close>

definition slice :: "nat \<Rightarrow> nat \<Rightarrow> string \<Rightarrow> string" where
  "slice a b s = take (b - a) (drop a s)"

text \<open>White space of the ASCII range: space, tab, line feed, vertical tab, form feed, return.\<close>

definition is_ws :: "char \<Rightarrow> bool" where
  "is_ws c = (c = CHR '' '' \<or> c = CHR 0x09 \<or> c = CHR 0x0A \<or> c = CHR 0x0B \<or> c = CHR 0x0C
              \<or> c = CHR 0x0D)"

definition trim :: "string \<Rightarrow> string" where
  "trim s = rev (dropWhile is_ws (rev (dropWhile is_ws s)))"

subsection \<open>parseInt\<close>

text \<open>The digits \<^verbatim>\<open>parseInt\<close> knows up to radix 16, with their values.\<close>

definition digit_table :: "(char \<times> nat) list" where
  "digit_table =
     [(CHR ''0'', 0), (CHR ''1'', 1), (CHR ''2'', 2), (CHR ''3'', 3), (CHR ''4'', 4),
      (CHR ''5'', 5), (CHR ''6'', 6), (CHR ''7'', 7), (CHR ''8'', 8), (CHR ''9'', 9),
      (CHR ''a'', 10), (CHR ''b'', 11), (CHR ''c'', 12), (CHR ''d'', 13), (CHR ''e'', 14),
      (CHR ''f'', 15),
      (CHR ''A'', 10), (CHR ''B'', 11), (CHR ''C'', 12), (CHR ''D'', 13), (CHR ''E'', 14),
      (CHR ''F'', 15)]"

definition digit_val :: "char \<Rightarrow> nat option" where
  "digit_val c = map_of digit_table c"

text \<open>Is \<open>c\<close> a digit of the radix?\<close>

definition is_digit :: "nat \<Rightarrow> char \<Rightarrow> bool" where
  "is_digit radix c = (case digit_val c of None \<Rightarrow> False | Some v \<Rightarrow> v < radix)"

definition digits_value :: "nat \<Rightarrow> string \<Rightarrow> nat" where
  "digits_value radix ds =
     foldl (\<lambda>acc c. acc * radix + (case digit_val c of None \<Rightarrow> 0 | Some v \<Rightarrow> v)) 0 ds"

text \<open>
  \<^verbatim>\<open>parseInt(s)\<close> with no radix argument: leading white space is skipped, a sign is read,
  a prefix \<^verbatim>\<open>0x\<close> or \<^verbatim>\<open>0X\<close> selects radix 16, and the longest run of digits is the value.
  With no digit at all the result is \<^verbatim>\<open>NaN\<close>.
\<close>

fun strip_sign :: "string \<Rightarrow> int \<times> string" where
  "strip_sign [] = (1, [])"
| "strip_sign (c # cs) =
     (if c = CHR ''-'' then (- 1, cs) else if c = CHR ''+'' then (1, cs) else (1, c # cs))"

fun strip_radix :: "string \<Rightarrow> nat \<times> string" where
  "strip_radix (a # b # cs) =
     (if a = CHR ''0'' \<and> (b = CHR ''x'' \<or> b = CHR ''X'') then (16, cs) else (10, a # b # cs))"
| "strip_radix cs = (10, cs)"

definition parseInt :: "string \<Rightarrow> jsnum" where
  "parseInt s =
     (case strip_sign (dropWhile is_ws s) of (sign, s1) \<Rightarrow>
      (case strip_radix s1 of (radix, s2) \<Rightarrow>
        (let ds = takeWhile (is_digit radix) s2
         in if ds = [] then NaN else Num (sign * int (digits_value radix ds)))))"

section \<open>The time codec\<close>

record untis_time =
  hour :: jsnum
  minute :: jsnum

text \<open>\<^verbatim>\<open>static parseUntisTime(untisTime)\<close>, lines 43 to 50.\<close>

definition parseUntisTime :: "untis \<Rightarrow> untis_time" where
  "parseUntisTime untisTime =
     (let timeString = padStart 4 (CHR '' '') (toString untisTime)
      in \<lparr> hour = parseInt (trim (slice 0 2 timeString)),
           minute = parseInt (trim (slice 2 4 timeString)) \<rparr>)"

subsection \<open>The runtime's Date\<close>

text \<open>
  A \<^verbatim>\<open>Date\<close> is modelled by what its local getters return (\<^verbatim>\<open>getFullYear\<close>,
  \<^verbatim>\<open>getMonth\<close> from 0, \<^verbatim>\<open>getDate\<close>, \<^verbatim>\<open>getHours\<close>, ...), or it is the
  \<^verbatim>\<open>Invalid Date\<close>. Local time is taken without daylight-saving jumps, and the limit
  of 100 million days around 1970 is not modelled.
\<close>

record date_fields =
  fullYear :: int
  month :: int
  dayOfMonth :: int
  hours :: int
  minutes :: int
  seconds :: int
  milliseconds :: int

datatype jsdate = InvalidDate | ValidDate date_fields

definition leap :: "int \<Rightarrow> bool" where
  "leap y = ((y mod 4 = 0 \<and> y mod 100 \<noteq> 0) \<or> y mod 400 = 0)"

definition daysInMonth :: "int \<Rightarrow> int \<Rightarrow> int" where
  "daysInMonth y m =
     (if m = 1 then (if leap y then 29 else 28)
      else if m = 3 \<or> m = 5 \<or> m = 8 \<or> m = 10 then 30 else 31)"

definition nextMonth :: "int \<times> int \<Rightarrow> int \<times> int" where
  "nextMonth ym = (case ym of (y, m) \<Rightarrow> if m = 11 then (y + 1, 0) else (y, m + 1))"

definition prevMonth :: "int \<times> int \<Rightarrow> int \<times> int" where
  "prevMonth ym = (case ym of (y, m) \<Rightarrow> if m = 0 then (y - 1, 11) else (y, m - 1))"

text \<open>
  A day number past the end of its month runs over into the following months, one before
  the first into the preceding ones: what \<^verbatim>\<open>MakeDay\<close> followed by the getters gives.
\<close>

function roll_fwd :: "int \<times> int \<Rightarrow> int \<Rightarrow> int \<times> int \<times> int" where
  "roll_fwd ym d =
     (if daysInMonth (fst ym) (snd ym) < d
      then roll_fwd (nextMonth ym) (d - daysInMonth (fst ym) (snd ym))
      else (fst ym, snd ym, d))"
  by pat_completeness auto
termination
  by (relation "measure (\<lambda>(ym, d). nat d)") (auto simp: daysInMonth_def split: if_splits)

function roll_back :: "int \<times> int \<Rightarrow> int \<Rightarrow> int \<times> int \<times> int" where
  "roll_back ym d =
     (if d < 1
      then roll_back (prevMonth ym) (d + daysInMonth (fst (prevMonth ym)) (snd (prevMonth ym)))
      else (fst ym, snd ym, d))"
  by pat_completeness auto
termination
  by (relation "measure (\<lambda>(ym, d). nat (1 - d))") (auto simp: daysInMonth_def split: if_splits)

declare roll_fwd.simps [simp del]
declare roll_back.simps [simp del]

text \<open>\<^verbatim>\<open>MakeDay(y, m, d)\<close>, read back as year, month and day of the month.\<close>

definition makeDay :: "int \<Rightarrow> int \<Rightarrow> int \<Rightarrow> int \<times> int \<times> int" where
  "makeDay y m d =
     (let ym = (y + m div 12, m mod 12)
      in if d < 1 then roll_back ym d else roll_fwd ym d)"

definition withDay :: "date_fields \<Rightarrow> int \<times> int \<times> int \<Rightarrow> date_fields" where
  "withDay f ymd =
     (case ymd of (y, m, d) \<Rightarrow> f\<lparr> fullYear := y, month := m, dayOfMonth := d \<rparr>)"

text \<open>
  \<^verbatim>\<open>MakeTime(h, mi, s, ms)\<close> added to the day: the milliseconds of the day are split
  into the four time fields, whole days are carried into the date.
\<close>

definition msPerDay :: int where
  "msPerDay = 86400000"

definition makeTime :: "int \<Rightarrow> int \<Rightarrow> int \<Rightarrow> int \<Rightarrow> int" where
  "makeTime h mi s ms = h * 3600000 + mi * 60000 + s * 1000 + ms"

definition withTime :: "date_fields \<Rightarrow> int \<Rightarrow> date_fields" where
  "withTime f t =
     (withDay f (makeDay (fullYear f) (month f) (dayOfMonth f + t div msPerDay)))
       \<lparr> hours := (t div 3600000) mod 24,
         minutes := (t div 60000) mod 60,
         seconds := (t div 1000) mod 60,
         milliseconds := t mod 1000 \<rparr>"

text \<open>The fields \<^verbatim>\<open>setFullYear\<close> starts from on an Invalid Date: time value zero.\<close>

definition epoch :: date_fields where
  "epoch = \<lparr> fullYear = 1970, month = 0, dayOfMonth = 1, hours = 0, minutes = 0,
             seconds = 0, milliseconds = 0 \<rparr>"

fun setDate :: "jsdate \<Rightarrow> jsnum \<Rightarrow> jsdate" where
  "setDate (ValidDate f) (Num d) = ValidDate (withDay f (makeDay (fullYear f) (month f) d))"
| "setDate dt n = InvalidDate"

fun setFullYear :: "jsdate \<Rightarrow> jsnum \<Rightarrow> jsdate" where
  "setFullYear dt NaN = InvalidDate"
| "setFullYear InvalidDate (Num y) =
     ValidDate (withDay epoch (makeDay y (month epoch) (dayOfMonth epoch)))"
| "setFullYear (ValidDate f) (Num y) =
     ValidDate (withDay f (makeDay y (month f) (dayOfMonth f)))"

fun setMonth :: "jsdate \<Rightarrow> jsnum \<Rightarrow> jsdate" where
  "setMonth (ValidDate f) (Num m) = ValidDate (withDay f (makeDay (fullYear f) m (dayOfMonth f)))"
| "setMonth dt n = InvalidDate"

fun setHours :: "jsdate \<Rightarrow> jsnum \<Rightarrow> jsdate" where
  "setHours (ValidDate f) (Num h) =
     ValidDate (withTime f (makeTime h (minutes f) (seconds f) (milliseconds f)))"
| "setHours dt n = InvalidDate"

fun setMinutes :: "jsdate \<Rightarrow> jsnum \<Rightarrow> jsdate" where
  "setMinutes (ValidDate f) (Num mi) =
     ValidDate (withTime f (makeTime (hours f) mi (seconds f) (milliseconds f)))"
| "setMinutes dt n = InvalidDate"

fun setSeconds :: "jsdate \<Rightarrow> jsnum \<Rightarrow> jsdate" where
  "setSeconds (ValidDate f) (Num s) =
     ValidDate (withTime f (makeTime (hours f) (minutes f) s (milliseconds f)))"
| "setSeconds dt n = InvalidDate"

fun setMilliseconds :: "jsdate \<Rightarrow> jsnum \<Rightarrow> jsdate" where
  "setMilliseconds (ValidDate f) (Num ms) =
     ValidDate (withTime f (makeTime (hours f) (minutes f) (seconds f) ms))"
| "setMilliseconds dt n = InvalidDate"

fun getDate :: "jsdate \<Rightarrow> jsnum" where
  "getDate InvalidDate = NaN"
| "getDate (ValidDate f) = Num (dayOfMonth f)"

fun getMonth :: "jsdate \<Rightarrow> jsnum" where
  "getMonth InvalidDate = NaN"
| "getMonth (ValidDate f) = Num (month f)"

fun getFullYear :: "jsdate \<Rightarrow> jsnum" where
  "getFullYear InvalidDate = NaN"
| "getFullYear (ValidDate f) = Num (fullYear f)"

text \<open>
  The time value, which \<^verbatim>\<open>a.startDate - b.startDate\<close> subtracts: milliseconds since
  the first of January 1970, by the standard's \<^verbatim>\<open>DayFromYear\<close>.
\<close>

definition dayFromYear :: "int \<Rightarrow> int" where
  "dayFromYear y =
     365 * (y - 1970) + (y - 1969) div 4 - (y - 1901) div 100 + (y - 1601) div 400"

definition daysBeforeMonth :: "int \<Rightarrow> int \<Rightarrow> int" where
  "daysBeforeMonth y m = sum_list (map (daysInMonth y) [0..m - 1])"

definition timeValue :: "date_fields \<Rightarrow> int" where
  "timeValue f =
     (dayFromYear (fullYear f) + daysBeforeMonth (fullYear f) (month f) + dayOfMonth f - 1)
        * msPerDay
      + makeTime (hours f) (minutes f) (seconds f) (milliseconds f)"

fun valueOf :: "jsdate \<Rightarrow> jsnum" where
  "valueOf InvalidDate = NaN"
| "valueOf (ValidDate f) = Num (timeValue f)"

text \<open>What \<^verbatim>\<open>new Date()\<close> can return: the fields of a real moment.\<close>

definition wf_date :: "date_fields \<Rightarrow> bool" where
  "wf_date f =
     (0 \<le> month f \<and> month f \<le> 11
      \<and> 1 \<le> dayOfMonth f \<and> dayOfMonth f \<le> daysInMonth (fullYear f) (month f)
      \<and> 0 \<le> hours f \<and> hours f < 24 \<and> 0 \<le> minutes f \<and> minutes f < 60
      \<and> 0 \<le> seconds f \<and> seconds f < 60 \<and> 0 \<le> milliseconds f \<and> milliseconds f < 1000)"

subsection \<open>Dates of the service\<close>

text \<open>
  \<^verbatim>\<open>static parseUntisDate(untisDate)\<close>, lines 57 to 77. The source starts from
  \<^verbatim>\<open>new Date()\<close>; the fields of that moment are the parameter \<open>now\<close>.
\<close>

definition parseUntisDate :: "date_fields \<Rightarrow> untis \<Rightarrow> jsdate" where
  "parseUntisDate now untisDate =
     (let dateString = toString untisDate;
          year = parseInt (slice 0 4 dateString);
          month = parseInt (slice 4 6 dateString);
          day = parseInt (slice 6 8 dateString);
          date = ValidDate now;
          date = setDate date day;
          date = setFullYear date year;
          date = setMonth date (js_add month (- 1));
          date = setHours date (Num 0);
          date = setMinutes date (Num 0);
          date = setSeconds date (Num 0);
          date = setMilliseconds date (Num 0)
      in date)"

text \<open>\<^verbatim>\<open>static parseUntisDateTime(untisDate, untisTime)\<close>, lines 85 to 93.\<close>

definition parseUntisDateTime :: "date_fields \<Rightarrow> untis \<Rightarrow> untis \<Rightarrow> jsdate" where
  "parseUntisDateTime now untisDate untisTime =
     (let date = parseUntisDate now untisDate;
          time = parseUntisTime untisTime;
          date = setHours date (js_add (hour time) 1);
          date = setMinutes date (minute time)
      in date)"

text \<open>\<^verbatim>\<open>static dateToUntisDate(date, separator = '')\<close>, lines 102 to 107.\<close>

definition dateToUntisDate :: "jsdate \<Rightarrow> string \<Rightarrow> string" where
  "dateToUntisDate date separator =
     (let day = padStart 2 (CHR ''0'') (num_toString (getDate date));
          month = padStart 2 (CHR ''0'') (num_toString (js_add (getMonth date) 1))
      in num_toString (getFullYear date) @ separator @ month @ separator @ day)"

section \<open>The client\<close>

text \<open>
  An exception is a value. \<open>Error msg\<close> is what the source throws itself with
  \<^verbatim>\<open>throw new Error(msg)\<close>; \<open>TypeError\<close> is what the runtime throws when a property of
  \<^verbatim>\<open>undefined\<close> is read or \<^verbatim>\<open>undefined\<close> is iterated; \<open>FetchError\<close> is a rejection
  of the transport itself. The source has no error classes of its own.
\<close>

datatype js_error = Error string | TypeError | FetchError string

text \<open>
  The instance fields, lines 109 to 112: \<^verbatim>\<open>null\<close> is \<open>None\<close>.
\<close>

record client =
  school :: string
  personId :: "int option"
  sessionId :: "string option"

text \<open>\<^verbatim>\<open>!x\<close> on a string that may be absent, and on a number that may be absent.\<close>

fun falsy_str :: "string option \<Rightarrow> bool" where
  "falsy_str None = True"
| "falsy_str (Some s) = (s = [])"

fun falsy_num :: "int option \<Rightarrow> bool" where
  "falsy_num None = True"
| "falsy_num (Some n) = (n = 0)"

text \<open>\<^verbatim>\<open>constructor(school)\<close>, lines 119 to 125.\<close>

definition new_WebUntis :: "string option \<Rightarrow> js_error + client" where
  "new_WebUntis school_arg =
     (if falsy_str school_arg
      then Inl (Error ''Insufficient arguments: school name required'')
      else Inr \<lparr> school = the school_arg, personId = None, sessionId = None \<rparr>)"

subsection \<open>Requests\<close>

text \<open>The body \<^verbatim>\<open>rpcify\<close> builds, lines 15 to 21, before it is serialised.\<close>

record rpc_body =
  jsonrpc :: string
  rpc_method :: string
  params :: "(string \<times> string) list"
  rpc_id :: string

text \<open>What the source hands to \<^verbatim>\<open>fetch\<close>: the address and the parts of the options the
  service reads.\<close>

record fetch_args =
  uri :: string
  http_method :: string
  cookie :: "string option"
  body :: "rpc_body option"

text \<open>
  The payloads, with the fields the source reads. A field that may be missing in the
  parsed JSON is an option; the fields of an entity, of a reference and of a period are
  taken to be there with the types the service gives them (numbers for \<^verbatim>\<open>type\<close> and
  \<^verbatim>\<open>id\<close>, a string for \<^verbatim>\<open>name\<close>).
\<close>

record auth_result =
  ar_sessionId :: "string option"
  ar_personId :: "int option"

record year_result =
  yr_name :: "string option"
  yr_startDate :: "untis option"
  yr_endDate :: "untis option"

record raw_absence =
  ab_startDate :: untis
  ab_startTime :: untis
  ab_endDate :: untis
  ab_endTime :: untis
  isExcused :: bool

record raw_element =
  el_type :: int
  el_id :: int
  el_name :: string

record element_ref =
  ref_type :: int
  ref_id :: int

record raw_period =
  p_date :: untis
  p_startTime :: untis
  p_endTime :: untis
  p_elements :: "element_ref list"
  is_cancelled :: "bool option"

record timetable_data =
  elements :: "raw_element list"
  elementIds :: "int list"
  elementPeriods :: "(int \<times> raw_period list) list"

text \<open>
  A parsed body has one of four shapes. \<open>AuthBody r\<close> and \<open>YearBody r\<close> carry the
  property \<^verbatim>\<open>result\<close> (\<open>None\<close>: the property is missing). \<open>AbsencesBody d\<close> carries
  \<^verbatim>\<open>data\<close> and in it \<^verbatim>\<open>absences\<close> (the inner \<open>None\<close>: not an array).
  \<open>TimetableBody d\<close> carries what \<^verbatim>\<open>result.data.result.data\<close> reaches (\<open>None\<close>: one of
  the four properties is missing).
\<close>

datatype json =
    AuthBody "auth_result option"
  | YearBody "year_result option"
  | AbsencesBody "raw_absence list option option"
  | TimetableBody "timetable_data option"

datatype response = Rejected string | NotOk string | OkJson json

text \<open>
  What the class takes from outside: \<^verbatim>\<open>fetch\<close> (node-fetch), \<^verbatim>\<open>startOfISOWeek\<close>
  (date-fns), the moment \<^verbatim>\<open>new Date()\<close> returns during the call, and the text of
  \<^verbatim>\<open>Date.now().toString(36)\<close>. They are parameters of the model.
\<close>

record env =
  fetch :: "fetch_args \<Rightarrow> response"
  startOfISOWeek :: "jsdate \<Rightarrow> jsdate"
  today :: date_fields
  now_base36 :: string

definition BASE_URL :: string where
  "BASE_URL = ''https://erato.webuntis.com/WebUntis''"

text \<open>\<^verbatim>\<open>static rpcify(method, params = {})\<close>, lines 15 to 21.\<close>

definition rpcify :: "env \<Rightarrow> string \<Rightarrow> (string \<times> string) list \<Rightarrow> rpc_body" where
  "rpcify e method_name ps =
     \<lparr> jsonrpc = ''2.0'', rpc_method = method_name, params = ps, rpc_id = now_base36 e \<rparr>"

text \<open>
  \<^verbatim>\<open>static async request(...args)\<close>, lines 23 to 36. What it writes to the console is
  left out.
\<close>

definition request :: "env \<Rightarrow> fetch_args \<Rightarrow> js_error + json" where
  "request e args =
     (case fetch e args of
        Rejected msg \<Rightarrow> Inl (FetchError msg)
      | NotOk text \<Rightarrow> Inl (Error text)
      | OkJson j \<Rightarrow> Inr j)"

text \<open>\<^verbatim>\<open>get rpcUri()\<close>, line 130.\<close>

definition rpcUri :: "client \<Rightarrow> string" where
  "rpcUri c = BASE_URL @ ''/jsonrpc.do?school='' @ school c"

text \<open>A value inside a template literal: \<^verbatim>\<open>null\<close> prints as \<^verbatim>\<open>null\<close>.\<close>

fun template_num :: "int option \<Rightarrow> string" where
  "template_num None = ''null''"
| "template_num (Some n) = int_toString n"

fun template_str :: "string option \<Rightarrow> string" where
  "template_str None = ''null''"
| "template_str (Some s) = s"

subsection \<open>authenticate\<close>

text \<open>The property \<^verbatim>\<open>result\<close> of a body, read as an authentication result.\<close>

fun auth_of :: "json \<Rightarrow> auth_result option" where
  "auth_of (AuthBody r) = r"
| "auth_of (YearBody r) =
     map_option (\<lambda>y. \<lparr> ar_sessionId = None, ar_personId = None \<rparr>) r"
| "auth_of j = None"

definition authenticate_args :: "env \<Rightarrow> client \<Rightarrow> string option \<Rightarrow> string option \<Rightarrow> fetch_args"
  where
  "authenticate_args e c username password =
     \<lparr> uri = rpcUri c, http_method = ''POST'', cookie = None,
       body = Some (rpcify e ''authenticate''
                [(''user'', template_str username), (''password'', template_str password)]) \<rparr>"

text \<open>
  \<^verbatim>\<open>async authenticate(username, password)\<close>, lines 140 to 165. The result is what the
  call returns or throws, the instance after the call, and the requests sent. The note
  about a session id that is not 32 characters long (lines 156 to 159) is console output
  and changes nothing.
\<close>

definition authenticate ::
  "env \<Rightarrow> client \<Rightarrow> string option \<Rightarrow> string option
     \<Rightarrow> (js_error + string \<times> int) \<times> client \<times> fetch_args list" where
  "authenticate e c username password =
     (if falsy_str username \<or> falsy_str password
      then (Inl (Error ''Insufficient arguments: username, password required''), c, [])
      else
        (let args = authenticate_args e c username password
         in case request e args of
              Inl err \<Rightarrow> (Inl err, c, [args])
            | Inr j \<Rightarrow>
                (case auth_of j of
                   None \<Rightarrow> (Inl TypeError, c, [args])
                 | Some r \<Rightarrow>
                     if falsy_str (ar_sessionId r) \<or> falsy_num (ar_personId r)
                     then (Inl (Error ''Missing response data''), c, [args])
                     else (Inr (the (ar_sessionId r), the (ar_personId r)),
                           c\<lparr> personId := ar_personId r, sessionId := ar_sessionId r \<rparr>,
                           [args]))))"

subsection \<open>getAbsences\<close>

record absence =
  abs_startDate :: jsdate
  abs_endDate :: jsdate
  excused :: bool

fun absences_of :: "json \<Rightarrow> raw_absence list option option" where
  "absences_of (AbsencesBody d) = d"
| "absences_of (TimetableBody d) = map_option (\<lambda>t. None) d"
| "absences_of j = None"

definition absences_headers_cookie :: "client \<Rightarrow> string" where
  "absences_headers_cookie c = ''JSESSIONID='' @ template_str (sessionId c)"

definition getAbsences_args :: "client \<Rightarrow> jsdate \<Rightarrow> jsdate \<Rightarrow> fetch_args" where
  "getAbsences_args c startDate endDate =
     \<lparr> uri = BASE_URL @ ''/api/classreg/absences/students?''
             @ ''studentId='' @ template_num (personId c)
             @ ''&excuseStatusId=-1&includeTodaysAbsence=true''
             @ ''&startDate='' @ dateToUntisDate startDate []
             @ ''&endDate='' @ dateToUntisDate endDate [],
       http_method = ''GET'',
       cookie = Some (absences_headers_cookie c),
       body = None \<rparr>"

text \<open>\<^verbatim>\<open>async getAbsences(startDate, endDate)\<close>, lines 184 to 232.\<close>

definition getAbsences ::
  "env \<Rightarrow> client \<Rightarrow> jsdate option \<Rightarrow> jsdate option
     \<Rightarrow> (js_error + absence list) \<times> fetch_args list" where
  "getAbsences e c startDate endDate =
     (if falsy_str (sessionId c)
      then (Inl (Error ''Unauthenticated instance''), [])
      else if startDate = None \<or> endDate = None
      then (Inl (Error ''Insufficient arguments: startDate, endDate required''), [])
      else
        (let args = getAbsences_args c (the startDate) (the endDate)
         in case request e args of
              Inl err \<Rightarrow> (Inl err, [args])
            | Inr j \<Rightarrow>
                (case absences_of j of
                   None \<Rightarrow> (Inl TypeError, [args])
                 | Some None \<Rightarrow> (Inl (Error ''Missing response data''), [args])
                 | Some (Some absences) \<Rightarrow>
                     (Inr (map (\<lambda>a.
                         \<lparr> abs_startDate =
                             parseUntisDateTime (today e) (ab_startDate a) (ab_startTime a),
                           abs_endDate =
                             parseUntisDateTime (today e) (ab_endDate a) (ab_endTime a),
                           excused = isExcused a \<rparr>) absences),
                      [args]))))"

subsection \<open>getCurrentSchoolyear\<close>

record schoolyear =
  sy_name :: string
  sy_startDate :: jsdate
  sy_endDate :: jsdate

fun year_of :: "json \<Rightarrow> year_result option" where
  "year_of (YearBody r) = r"
| "year_of (AuthBody r) =
     map_option (\<lambda>a. \<lparr> yr_name = None, yr_startDate = None, yr_endDate = None \<rparr>) r"
| "year_of j = None"

definition getCurrentSchoolyear_args :: "env \<Rightarrow> client \<Rightarrow> fetch_args" where
  "getCurrentSchoolyear_args e c =
     \<lparr> uri = rpcUri c, http_method = ''POST'',
       cookie = Some (''JSESSIONID='' @ template_str (sessionId c)),
       body = Some (rpcify e ''getCurrentSchoolyear'' []) \<rparr>"

text \<open>
  \<^verbatim>\<open>async getCurrentSchoolyear()\<close>, lines 239 to 258. A compact date that is the number
  zero or the empty string is falsy.
\<close>

fun falsy_untis :: "untis option \<Rightarrow> bool" where
  "falsy_untis None = True"
| "falsy_untis (Some (UNum n)) = (n = 0)"
| "falsy_untis (Some (UStr s)) = (s = [])"

definition getCurrentSchoolyear ::
  "env \<Rightarrow> client \<Rightarrow> (js_error + schoolyear) \<times> fetch_args list" where
  "getCurrentSchoolyear e c =
     (if falsy_str (sessionId c)
      then (Inl (Error ''Unauthenticated instance''), [])
      else
        (let args = getCurrentSchoolyear_args e c
         in case request e args of
              Inl err \<Rightarrow> (Inl err, [args])
            | Inr j \<Rightarrow>
                (case year_of j of
                   None \<Rightarrow> (Inl TypeError, [args])
                 | Some r \<Rightarrow>
                     if falsy_str (yr_name r) \<or> falsy_untis (yr_startDate r)
                        \<or> falsy_untis (yr_endDate r)
                     then (Inl (Error ''Missing response data''), [args])
                     else (Inr \<lparr> sy_name = the (yr_name r),
                                 sy_startDate = parseUntisDate (today e) (the (yr_startDate r)),
                                 sy_endDate = parseUntisDate (today e) (the (yr_endDate r)) \<rparr>,
                           [args]))))"

subsection \<open>getTimetableWeek\<close>

record timetable_entry =
  startDate :: jsdate
  endDate :: jsdate
  subject :: string
  cancelled :: bool

text \<open>
  The object \<^verbatim>\<open>elements\<close> of the source, keyed by numbers: a list of keys with their
  values, in the order the keys were first assigned. \<open>put\<close> is the assignment
  \<^verbatim>\<open>obj[k] = v\<close>, \<open>map_of obj k\<close> the read \<^verbatim>\<open>obj[k]\<close> (\<open>None\<close>: \<^verbatim>\<open>undefined\<close>).
\<close>

fun put :: "int \<Rightarrow> 'v \<Rightarrow> (int \<times> 'v) list \<Rightarrow> (int \<times> 'v) list" where
  "put k v [] = [(k, v)]"
| "put k v (kv # kvs) = (if fst kv = k then (k, v) # kvs else kv # put k v kvs)"

text \<open>Lines 346 to 352: the raw elements are collected in one array for each type.\<close>

definition by_type_step ::
  "(int \<times> raw_element list) list \<Rightarrow> raw_element \<Rightarrow> (int \<times> raw_element list) list" where
  "by_type_step els rawEl =
     (case map_of els (el_type rawEl) of
        None \<Rightarrow> put (el_type rawEl) [rawEl] els
      | Some same \<Rightarrow> put (el_type rawEl) (same @ [rawEl]) els)"

definition by_type :: "raw_element list \<Rightarrow> (int \<times> raw_element list) list" where
  "by_type rawElements = foldl by_type_step [] rawElements"

text \<open>Lines 356 to 363: each array becomes an object keyed by id; the first element of an
  id stays.\<close>

definition by_id_step :: "(int \<times> raw_element) list \<Rightarrow> raw_element \<Rightarrow> (int \<times> raw_element) list"
  where
  "by_id_step acc cur =
     (case map_of acc (el_id cur) of None \<Rightarrow> put (el_id cur) cur acc | Some first \<Rightarrow> acc)"

definition by_id :: "raw_element list \<Rightarrow> (int \<times> raw_element) list" where
  "by_id els = foldl by_id_step [] els"

definition element_index :: "raw_element list \<Rightarrow> (int \<times> (int \<times> raw_element) list) list" where
  "element_index rawElements = map (\<lambda>(t, els). (t, by_id els)) (by_type rawElements)"

text \<open>\<^verbatim>\<open>elements[t][i]\<close> where both reads succeed.\<close>

definition lookup_element ::
  "(int \<times> (int \<times> raw_element) list) list \<Rightarrow> int \<Rightarrow> int \<Rightarrow> raw_element option" where
  "lookup_element idx t i = (case map_of idx t of None \<Rightarrow> None | Some ids \<Rightarrow> map_of ids i)"

text \<open>
  Lines 375 and 376:
  \<^verbatim>\<open>elements['3'][rawPer.elements.filter((e) => e.type == 3)[0].id].name\<close>.
  Reading \<^verbatim>\<open>.id\<close> of a missing first match, indexing a missing \<^verbatim>\<open>elements['3']\<close> and
  reading \<^verbatim>\<open>.name\<close> of a missing element each throw a TypeError.
\<close>

definition subject_of ::
  "(int \<times> (int \<times> raw_element) list) list \<Rightarrow> raw_period \<Rightarrow> js_error + string" where
  "subject_of idx rawPer =
     (case filter (\<lambda>r. ref_type r = 3) (p_elements rawPer) of
        [] \<Rightarrow> Inl TypeError
      | r # rest \<Rightarrow>
          (case map_of idx 3 of
             None \<Rightarrow> Inl TypeError
           | Some ids \<Rightarrow>
               (case map_of ids (ref_id r) of
                  None \<Rightarrow> Inl TypeError
                | Some el \<Rightarrow> Inr (el_name el))))"

text \<open>The body of the loop over the raw periods, lines 367 to 381.\<close>

definition resolve_period ::
  "date_fields \<Rightarrow> (int \<times> (int \<times> raw_element) list) list \<Rightarrow> raw_period
     \<Rightarrow> js_error + timetable_entry" where
  "resolve_period now idx rawPer =
     (let end = parseUntisDateTime now (p_date rawPer) (p_endTime rawPer);
          start = parseUntisDateTime now (p_date rawPer) (p_startTime rawPer)
      in case subject_of idx rawPer of
           Inl err \<Rightarrow> Inl err
         | Inr name \<Rightarrow>
             Inr \<lparr> startDate = start, endDate = end, subject = name,
                   cancelled = (case is_cancelled rawPer of None \<Rightarrow> False | Some b \<Rightarrow> b) \<rparr>)"

fun resolve_periods ::
  "date_fields \<Rightarrow> (int \<times> (int \<times> raw_element) list) list \<Rightarrow> raw_period list
     \<Rightarrow> js_error + timetable_entry list" where
  "resolve_periods now idx [] = Inr []"
| "resolve_periods now idx (rawPer # rest) =
     (case resolve_period now idx rawPer of
        Inl err \<Rightarrow> Inl err
      | Inr entry \<Rightarrow>
          (case resolve_periods now idx rest of
             Inl err \<Rightarrow> Inl err
           | Inr entries \<Rightarrow> Inr (entry # entries)))"

text \<open>
  \<^verbatim>\<open>periods.sort((a, b) => a.startDate - b.startDate)\<close>, line 383. The comparator
  subtracts the time values; on an Invalid Date the difference is \<^verbatim>\<open>NaN\<close>.
\<close>

definition compare_start :: "timetable_entry \<Rightarrow> timetable_entry \<Rightarrow> jsnum" where
  "compare_start a b = js_sub (valueOf (startDate a)) (valueOf (startDate b))"



text \<open>
  \<^verbatim>\<open>Array.prototype.sort\<close> is the runtime's. The source runs on Node, whose engine
  sorts an array of fewer than 64 elements in these steps: a comparator result of
  \<^verbatim>\<open>NaN\<close> is read as zero; the run at the start of the array is counted, while each
  element is not less than the one before it, or, if the second element is less than the
  first, while each element is less than the one before it, and then the run is reversed;
  every element after the run is put into the sorted part in front of it at the place a
  binary search finds. The model takes these steps for an array of every length. From 64
  elements on the engine merges several such runs, which gives the same array wherever
  the comparator orders the elements by a key, since the sort is stable.
\<close>

fun order_of :: "jsnum \<Rightarrow> int" where
  "order_of NaN = 0"
| "order_of (Num n) = n"

fun run_descending :: "('a \<Rightarrow> 'a \<Rightarrow> jsnum) \<Rightarrow> 'a \<Rightarrow> 'a list \<Rightarrow> nat" where
  "run_descending cmp previous [] = 0"
| "run_descending cmp previous (current # rest) =
     (if order_of (cmp current previous) < 0 then Suc (run_descending cmp current rest) else 0)"

fun run_ascending :: "('a \<Rightarrow> 'a \<Rightarrow> jsnum) \<Rightarrow> 'a \<Rightarrow> 'a list \<Rightarrow> nat" where
  "run_ascending cmp previous [] = 0"
| "run_ascending cmp previous (current # rest) =
     (if order_of (cmp current previous) < 0 then 0 else Suc (run_ascending cmp current rest))"

text \<open>The first run, made ascending, and the elements after it.\<close>

fun count_and_make_run :: "('a \<Rightarrow> 'a \<Rightarrow> jsnum) \<Rightarrow> 'a list \<Rightarrow> 'a list \<times> 'a list" where
  "count_and_make_run cmp (high # low # rest) =
     (if order_of (cmp low high) < 0
      then (rev (take (2 + run_descending cmp low rest) (high # low # rest)),
            drop (2 + run_descending cmp low rest) (high # low # rest))
      else (take (2 + run_ascending cmp low rest) (high # low # rest),
            drop (2 + run_ascending cmp low rest) (high # low # rest)))"
| "count_and_make_run cmp xs = (xs, [])"

text \<open>The place of the pivot in the sorted part \<open>work\<close>, searched between \<open>left\<close> and
  \<open>right\<close>.\<close>

function binary_search ::
  "('a \<Rightarrow> 'a \<Rightarrow> jsnum) \<Rightarrow> 'a \<Rightarrow> 'a list \<Rightarrow> nat \<Rightarrow> nat \<Rightarrow> nat" where
  "binary_search cmp pivot work left right =
     (if left < right
      then (let mid = left + (right - left) div 2
            in if order_of (cmp pivot (work ! mid)) < 0
               then binary_search cmp pivot work left mid
               else binary_search cmp pivot work (mid + 1) right)
      else left)"
  by pat_completeness auto
termination
  by (relation "measure (\<lambda>(cmp, pivot, work, left, right). right - left)") auto

declare binary_search.simps [simp del]

definition binary_insert :: "('a \<Rightarrow> 'a \<Rightarrow> jsnum) \<Rightarrow> 'a list \<Rightarrow> 'a \<Rightarrow> 'a list" where
  "binary_insert cmp work pivot =
     (let left = binary_search cmp pivot work 0 (length work)
      in take left work @ pivot # drop left work)"

definition js_sort :: "('a \<Rightarrow> 'a \<Rightarrow> jsnum) \<Rightarrow> 'a list \<Rightarrow> 'a list" where
  "js_sort cmp xs =
     (case count_and_make_run cmp xs of (run, rest) \<Rightarrow> foldl (binary_insert cmp) run rest)"



text \<open>Line 341: \<^verbatim>\<open>data.elementPeriods[data.elementIds[0]]\<close>.\<close>

definition rawPeriods_of :: "timetable_data \<Rightarrow> raw_period list option" where
  "rawPeriods_of d =
     (case elementIds d of [] \<Rightarrow> None | i # rest \<Rightarrow> map_of (elementPeriods d) i)"

text \<open>
  Lines 315 to 383, from the parsed body to the returned array. Iterating a missing
  \<^verbatim>\<open>rawPeriods\<close> throws a TypeError.
\<close>

definition timetable_of_data :: "date_fields \<Rightarrow> timetable_data \<Rightarrow> js_error + timetable_entry list"
  where
  "timetable_of_data now d =
     (let rawElements = elements d;
          rawPeriods = rawPeriods_of d;
          idx = element_index rawElements
      in case rawPeriods of
           None \<Rightarrow> Inl TypeError
         | Some raws \<Rightarrow>
             (case resolve_periods now idx raws of
                Inl err \<Rightarrow> Inl err
              | Inr periods \<Rightarrow> Inr (js_sort compare_start periods)))"

fun timetable_of :: "json \<Rightarrow> timetable_data option" where
  "timetable_of (TimetableBody d) = d"
| "timetable_of j = None"

definition getTimetableWeek_args :: "env \<Rightarrow> client \<Rightarrow> jsdate \<Rightarrow> fetch_args" where
  "getTimetableWeek_args e c date =
     (let mondayInWeek = dateToUntisDate (startOfISOWeek e date) ''-''
      in \<lparr> uri = BASE_URL @ ''/api/public/timetable/weekly/data?''
               @ ''elementType=5&''
               @ ''elementId='' @ template_num (personId c) @ ''&''
               @ ''date='' @ mondayInWeek @ ''&''
               @ ''formatId=1'',
           http_method = ''GET'',
           cookie = Some (''JSESSIONID='' @ template_str (sessionId c)),
           body = None \<rparr>)"

text \<open>\<^verbatim>\<open>async getTimetableWeek(date)\<close>, lines 277 to 384.\<close>

definition getTimetableWeek ::
  "env \<Rightarrow> client \<Rightarrow> jsdate option \<Rightarrow> (js_error + timetable_entry list) \<times> fetch_args list"
  where
  "getTimetableWeek e c date =
     (if date = None
      then (Inl (Error ''Insufficient arguments: date required''), [])
      else if falsy_str (sessionId c)
      then (Inl (Error ''Unauthenticated instance''), [])
      else
        (let args = getTimetableWeek_args e c (the date)
         in case request e args of
              Inl err \<Rightarrow> (Inl err, [args])
            | Inr j \<Rightarrow>
                (case timetable_of j of
                   None \<Rightarrow> (Inl TypeError, [args])
                 | Some d \<Rightarrow> (timetable_of_data (today e) d, [args]))))"

text \<open>Did the call throw an \<^verbatim>\<open>Error\<close> that the source constructs itself?\<close>

fun deliberate :: "js_error + 'a \<Rightarrow> bool" where
  "deliberate (Inl (Error msg)) = True"
| "deliberate r = False"

section \<open>Example inputs\<close>

text \<open>Monday the eleventh of September 2023, and a moment of the tenth of February 2023.\<close>

definition ex_monday :: jsdate where
  "ex_monday = ValidDate \<lparr> fullYear = 2023, month = 8, dayOfMonth = 11, hours = 0,
                            minutes = 0, seconds = 0, milliseconds = 0 \<rparr>"

definition ex_now :: date_fields where
  "ex_now = \<lparr> fullYear = 2023, month = 1, dayOfMonth = 10, hours = 12, minutes = 30,
              seconds = 15, milliseconds = 123 \<rparr>"

text \<open>A transport that answers every request with the same response.\<close>

definition ex_env :: "response \<Rightarrow> env" where
  "ex_env r = \<lparr> fetch = (\<lambda>args. r), startOfISOWeek = (\<lambda>date. date), today = ex_now,
               now_base36 = ''lo5x1z2k'' \<rparr>"

definition ex_fresh :: client where
  "ex_fresh = \<lparr> school = ''borglinz'', personId = None, sessionId = None \<rparr>"

definition ex_session :: client where
  "ex_session = \<lparr> school = ''borglinz'', personId = Some 4711,
                  sessionId = Some ''0123456789ABCDEF0123456789ABCDEF'' \<rparr>"

definition ex_math :: raw_element where
  "ex_math = \<lparr> el_type = 3, el_id = 9, el_name = ''Math'' \<rparr>"

definition ex_period :: "int \<Rightarrow> int \<Rightarrow> element_ref list \<Rightarrow> raw_period" where
  "ex_period start end refs =
     \<lparr> p_date = UNum 20230911, p_startTime = UNum start, p_endTime = UNum end,
       p_elements = refs, is_cancelled = Some False \<rparr>"

definition ex_data :: "raw_element list \<Rightarrow> raw_period list \<Rightarrow> timetable_data" where
  "ex_data els raws = \<lparr> elements = els, elementIds = [4711], elementPeriods = [(4711, raws)] \<rparr>"

text \<open>A period that references a class and a teacher, and no subject.\<close>

definition ex_no_subject :: timetable_data where
  "ex_no_subject =
     ex_data [ex_math]
       [ex_period 800 845 [\<lparr> ref_type = 1, ref_id = 2 \<rparr>, \<lparr> ref_type = 2, ref_id = 9 \<rparr>]]"

text \<open>A period whose subject has an id that no element of type 3 has.\<close>

definition ex_unknown_subject :: timetable_data where
  "ex_unknown_subject =
     ex_data [ex_math, \<lparr> el_type = 1, el_id = 8, el_name = ''5A'' \<rparr>]
       [ex_period 800 845 [\<lparr> ref_type = 3, ref_id = 9 \<rparr>],
        ex_period 900 945 [\<lparr> ref_type = 1, ref_id = 8 \<rparr>, \<lparr> ref_type = 3, ref_id = 8 \<rparr>]]"


text \<open>Four periods: at 11:00, at 10:00, at 00:05 and at 09:00, in this order.\<close>

definition ex_four :: timetable_data where
  "ex_four =
     ex_data [ex_math]
       [ex_period 1100 1145 [\<lparr> ref_type = 3, ref_id = 9 \<rparr>],
        ex_period 1000 1045 [\<lparr> ref_type = 3, ref_id = 9 \<rparr>],
        ex_period 5 50 [\<lparr> ref_type = 3, ref_id = 9 \<rparr>],
        ex_period 900 945 [\<lparr> ref_type = 3, ref_id = 9 \<rparr>]]"

text \<open>Three periods, the first and the last at the same time, and a second subject.\<close>

definition ex_week :: timetable_data where
  "ex_week =
     ex_data [ex_math, \<lparr> el_type = 3, el_id = 4, el_name = ''Art'' \<rparr>]
       [ex_period 1000 1045 [\<lparr> ref_type = 3, ref_id = 9 \<rparr>],
        ex_period 800 845 [\<lparr> ref_type = 3, ref_id = 4 \<rparr>],
        ex_period 1000 1045 [\<lparr> ref_type = 3, ref_id = 4 \<rparr>]]"

text \<open>An entry of that Monday, not cancelled, by the hours and minutes of its start and end.\<close>

definition ex_at :: "int \<Rightarrow> int \<Rightarrow> jsdate" where
  "ex_at h mi = ValidDate \<lparr> fullYear = 2023, month = 8, dayOfMonth = 11, hours = h,
                            minutes = mi, seconds = 0, milliseconds = 0 \<rparr>"

definition ex_entry :: "jsdate \<Rightarrow> jsdate \<Rightarrow> string \<Rightarrow> timetable_entry" where
  "ex_entry start end name =
     \<lparr> startDate = start, endDate = end, subject = name, cancelled = False \<rparr>"

section \<open>Properties of the time codec\<close>

subsection \<open>Calendar arithmetic\<close>

lemmas string_eval = int_toString_def nat_toString.simps digit_char_def slice_def parseInt_def
  is_ws_def is_digit_def digit_val_def digit_table_def digits_value_def padStart_def trim_def

lemmas date_eval = makeDay_def roll_fwd.simps roll_back.simps withDay_def withTime_def
  makeTime_def msPerDay_def daysInMonth_def leap_def nextMonth_def prevMonth_def epoch_def

lemma daysInMonth_ge: "28 \<le> daysInMonth y m"
  by (simp add: daysInMonth_def)

lemma makeDay_id:
  "0 \<le> m \<Longrightarrow> m \<le> 11 \<Longrightarrow> 1 \<le> d \<Longrightarrow> d \<le> daysInMonth y m \<Longrightarrow> makeDay y m d = (y, m, d)"
  by (simp add: makeDay_def roll_fwd.simps [of "(y, m)" d])

lemma div_step: "0 \<le> r \<Longrightarrow> r < k \<Longrightarrow> (q * k + r) div k = (q::int)"
  by simp

lemma mod_step: "0 \<le> r \<Longrightarrow> r < k \<Longrightarrow> (q * k + r) mod k = (r::int)"
  by simp

lemma time_split:
  assumes "0 \<le> h" "h < 24" "0 \<le> mi" "mi < 60" "0 \<le> s" "s < 60" "0 \<le> ms" "ms < 1000"
  shows "makeTime h mi s ms div msPerDay = 0"
    and "(makeTime h mi s ms div 3600000) mod 24 = h"
    and "(makeTime h mi s ms div 60000) mod 60 = mi"
    and "(makeTime h mi s ms div 1000) mod 60 = s"
    and "makeTime h mi s ms mod 1000 = ms"
proof -
  let ?t = "makeTime h mi s ms"
  have t: "?t = ((h * 60 + mi) * 60 + s) * 1000 + ms"
    by (simp add: makeTime_def algebra_simps)
  have d1: "?t div 1000 = (h * 60 + mi) * 60 + s"
    unfolding t using assms by (intro div_step) auto
  show "?t mod 1000 = ms"
    unfolding t using assms by (intro mod_step) auto
  show "(?t div 1000) mod 60 = s"
    unfolding d1 using assms by (intro mod_step) auto
  have "?t div 60000 = (?t div 1000) div 60"
    using zdiv_zmult2_eq [of 60 ?t 1000] by simp
  also have "\<dots> = h * 60 + mi"
    unfolding d1 using assms by (intro div_step) auto
  finally have d2: "?t div 60000 = h * 60 + mi" .
  show "(?t div 60000) mod 60 = mi"
    unfolding d2 using assms by (intro mod_step) auto
  have "?t div 3600000 = (?t div 60000) div 60"
    using zdiv_zmult2_eq [of 60 ?t 60000] by simp
  also have "\<dots> = h"
    unfolding d2 using assms by (intro div_step) auto
  finally have d3: "?t div 3600000 = h" .
  show "(?t div 3600000) mod 24 = h"
    unfolding d3 using assms by simp
  have "?t div 86400000 = (?t div 3600000) div 24"
    using zdiv_zmult2_eq [of 24 ?t 3600000] by simp
  then show "?t div msPerDay = 0"
    unfolding d3 msPerDay_def using assms by simp
qed

text \<open>A time of day within the day leaves the date alone.\<close>

lemma withTime_in_range:
  assumes "0 \<le> h" "h < 24" "0 \<le> mi" "mi < 60" "0 \<le> s" "s < 60" "0 \<le> ms" "ms < 1000"
    and "0 \<le> month f" "month f \<le> 11" "1 \<le> dayOfMonth f"
    and "dayOfMonth f \<le> daysInMonth (fullYear f) (month f)"
  shows "withTime f (makeTime h mi s ms) =
           f\<lparr> hours := h, minutes := mi, seconds := s, milliseconds := ms \<rparr>"
  using assms by (simp add: withTime_def time_split makeDay_id withDay_def)

text \<open>The four setters that zero the time of day (lines 71 to 74), on the fields of a
  real moment.\<close>

lemma zero_time_wf:
  assumes "wf_date f"
  shows "setMilliseconds (setSeconds (setMinutes (setHours (ValidDate f) (Num 0)) (Num 0))
            (Num 0)) (Num 0)
         = ValidDate (f\<lparr> hours := 0, minutes := 0, seconds := 0, milliseconds := 0 \<rparr>)"
proof -
  from assms have r: "0 \<le> month f" "month f \<le> 11" "1 \<le> dayOfMonth f"
    "dayOfMonth f \<le> daysInMonth (fullYear f) (month f)"
    "0 \<le> minutes f" "minutes f < 60" "0 \<le> seconds f" "seconds f < 60"
    "0 \<le> milliseconds f" "milliseconds f < 1000"
    by (simp_all add: wf_date_def)
  show ?thesis
    using r by (simp add: withTime_in_range)
qed

text \<open>
  Where the day of the month is at most 28 the three date setters cannot run over, whatever
  the moment of the call: the result is the date that was written.
\<close>

lemma parseUntisDate_upto_28:
  assumes now: "wf_date now"
    and y: "parseInt (slice 0 4 (toString u)) = Num y"
    and m: "parseInt (slice 4 6 (toString u)) = Num m"
    and d: "parseInt (slice 6 8 (toString u)) = Num d"
    and range: "1 \<le> m" "m \<le> 12" "1 \<le> d" "d \<le> 28"
  shows "parseUntisDate now u =
           ValidDate \<lparr> fullYear = y, month = m - 1, dayOfMonth = d, hours = 0, minutes = 0,
                       seconds = 0, milliseconds = 0 \<rparr>"
proof -
  from now have r: "0 \<le> month now" "month now \<le> 11"
    by (simp_all add: wf_date_def)
  have d1: "setDate (ValidDate now) (Num d) = ValidDate (now\<lparr> dayOfMonth := d \<rparr>)"
    using r range daysInMonth_ge [of "fullYear now" "month now"]
    by (simp add: makeDay_id withDay_def)
  have d2: "setFullYear (ValidDate (now\<lparr> dayOfMonth := d \<rparr>)) (Num y)
              = ValidDate (now\<lparr> fullYear := y, dayOfMonth := d \<rparr>)"
    using r range daysInMonth_ge [of y "month now"]
    by (simp add: makeDay_id withDay_def)
  have d3: "setMonth (ValidDate (now\<lparr> fullYear := y, dayOfMonth := d \<rparr>)) (Num (m - 1))
              = ValidDate (now\<lparr> fullYear := y, month := m - 1, dayOfMonth := d \<rparr>)"
    using range daysInMonth_ge [of y "m - 1"]
    by (simp add: makeDay_id withDay_def)
  have w: "wf_date (now\<lparr> fullYear := y, month := m - 1, dayOfMonth := d \<rparr>)"
    using now range daysInMonth_ge [of y "m - 1"] by (simp add: wf_date_def)
  have m1: "js_add (Num m) (- 1) = Num (m - 1)"
    by simp
  show ?thesis
    unfolding parseUntisDate_def Let_def y m d m1 d1 d2 d3 zero_time_wf [OF w] by simp
qed

subsection \<open>Digits\<close>

lemma digit_val_digit_char: "d < 10 \<Longrightarrow> digit_val (digit_char d) = Some d"
  by (auto simp: digit_char_def digit_val_def digit_table_def)

lemma is_digit_digit_char: "d < 10 \<Longrightarrow> is_digit 10 (digit_char d)"
  by (simp add: is_digit_def digit_val_digit_char)

lemma is_digit_plain:
  assumes "is_digit 10 c"
  shows "\<not> is_ws c" and "c \<noteq> CHR ''-''" and "c \<noteq> CHR ''+''" and "c \<noteq> CHR ''x''"
    and "c \<noteq> CHR ''X''"
  using assms
  by (auto simp: is_digit_def digit_val_def digit_table_def is_ws_def split: if_splits)

lemma parseInt_decimal:
  assumes "s \<noteq> []" and "list_all (is_digit 10) s"
  shows "parseInt s = Num (int (digits_value 10 s))"
proof -
  obtain c cs where s: "s = c # cs"
    using assms(1) by (cases s) auto
  have c: "is_digit 10 c"
    using assms(2) s by simp
  have ws: "dropWhile is_ws s = s"
    using is_digit_plain(1) [OF c] s by simp
  have sign: "strip_sign s = (1, s)"
    using is_digit_plain(2,3) [OF c] s by simp
  have radix: "strip_radix s = (10, s)"
  proof (cases cs)
    case Nil
    with s show ?thesis by simp
  next
    case (Cons b rest)
    then have "is_digit 10 b"
      using assms(2) s by simp
    then show ?thesis
      using is_digit_plain(4,5) [of b] s Cons by simp
  qed
  have run: "takeWhile (is_digit 10) s = s"
    using assms(2) by (simp add: takeWhile_eq_all_conv list_all_iff)
  show ?thesis
    using assms(1) by (simp add: parseInt_def ws sign radix run)
qed

lemma digits_value_snoc:
  "digits_value r (s @ [c]) = digits_value r s * r + (case digit_val c of None \<Rightarrow> 0 | Some v \<Rightarrow> v)"
  by (simp add: digits_value_def)

lemma nat_toString_decimal:
  "nat_toString n \<noteq> [] \<and> list_all (is_digit 10) (nat_toString n)"
proof (induction n rule: nat_toString.induct)
  case (1 n)
  show ?case
  proof (cases "n < 10")
    case True
    then show ?thesis
      by (simp add: nat_toString.simps [of n] is_digit_digit_char)
  next
    case False
    then show ?thesis
      using "1.IH" by (simp add: nat_toString.simps [of n] is_digit_digit_char)
  qed
qed

lemma digits_value_nat_toString: "digits_value 10 (nat_toString n) = n"
proof (induction n rule: nat_toString.induct)
  case (1 n)
  show ?case
  proof (cases "n < 10")
    case True
    then show ?thesis
      by (simp add: nat_toString.simps [of n] digits_value_def digit_val_digit_char)
  next
    case False
    then show ?thesis
      using "1.IH"
      by (simp add: nat_toString.simps [of n] digits_value_snoc digit_val_digit_char)
  qed
qed

lemma parseInt_nat_toString: "parseInt (nat_toString n) = Num (int n)"
  using nat_toString_decimal [of n]
  by (simp add: parseInt_decimal digits_value_nat_toString)

lemma parseInt_two_digits:
  assumes "a < 10" and "b < 10"
  shows "parseInt [digit_char a, digit_char b] = Num (int (a * 10 + b))"
  using assms
  by (simp add: parseInt_decimal is_digit_digit_char digits_value_def digit_val_digit_char)

lemma nat_toString_one: "n < 10 \<Longrightarrow> nat_toString n = [digit_char n]"
  by (simp add: nat_toString.simps [of n])

lemma nat_toString_two:
  "10 \<le> n \<Longrightarrow> n < 100 \<Longrightarrow> nat_toString n = [digit_char (n div 10), digit_char (n mod 10)]"
  by (simp add: nat_toString.simps [of n] nat_toString_one)

lemma nat_toString_split_100:
  assumes "100 \<le> n"
  shows "nat_toString n =
           nat_toString (n div 100) @ [digit_char (n div 10 mod 10), digit_char (n mod 10)]"
proof -
  have "nat_toString n = nat_toString (n div 10) @ [digit_char (n mod 10)]"
    using assms by (simp add: nat_toString.simps [of n])
  moreover have "\<not> n div 10 < 10"
    using assms by simp
  then have "nat_toString (n div 10) =
      nat_toString (n div 10 div 10) @ [digit_char (n div 10 mod 10)]"
    by (subst nat_toString.simps) simp
  moreover have "n div 10 div 10 = n div 100"
    by (simp add: div_mult2_eq)
  ultimately show ?thesis by simp
qed

lemma trim_plain:
  assumes "list_all (is_digit 10) s"
  shows "trim s = s"
proof (cases s)
  case Nil
  then show ?thesis by (simp add: trim_def)
next
  case (Cons c cs)
  have first: "\<not> is_ws (hd s)"
    using assms Cons is_digit_plain(1) by simp
  have "last s \<in> set s"
    using Cons by simp
  then have lst: "\<not> is_ws (last s)"
    using assms is_digit_plain(1) by (auto simp: list_all_iff)
  have "dropWhile is_ws s = s"
    using first Cons by simp
  moreover have "dropWhile is_ws (rev s) = rev s"
    using lst Cons by (cases "rev s") (auto simp: hd_rev [symmetric] simp del: hd_rev)
  ultimately show ?thesis
    by (simp add: trim_def)
qed

lemma length_nat_toString_lt_100: "n < 100 \<Longrightarrow> length (nat_toString n) \<le> 2"
  by (cases "n < 10") (simp_all add: nat_toString_one nat_toString_two)

subsection \<open>Compact times\<close>

text \<open>
  The source pads with spaces, cuts two pieces of two characters, trims them and hands
  them to \<^verbatim>\<open>parseInt\<close>. For 815 the pieces are \<^verbatim>\<open>" 8"\<close> and \<^verbatim>\<open>"15"\<close>.
\<close>

lemma parseUntisTime_815: "parseUntisTime (UNum 815) = \<lparr> hour = Num 8, minute = Num 15 \<rparr>"
  by (simp add: parseUntisTime_def string_eval)

lemma parseUntisTime_string_0005:
  "parseUntisTime (UStr ''0005'') = \<lparr> hour = Num 0, minute = Num 5 \<rparr>"
  by (simp add: parseUntisTime_def string_eval)

text \<open>From 01:00 on a compact time given as a number parses to its hour and minute.\<close>

lemma parseUntisTime_from_0100:
  assumes "100 \<le> n" and "n \<le> 9999"
  shows "parseUntisTime (UNum n) = \<lparr> hour = Num (n div 100), minute = Num (n mod 100) \<rparr>"
proof -
  define k where "k = nat n"
  have n: "n = int k" and k: "100 \<le> k" "k \<le> 9999"
    using assms by (simp_all add: k_def)
  let ?H = "nat_toString (k div 100)"
  let ?a = "digit_char (k div 10 mod 10)"
  let ?b = "digit_char (k mod 10)"
  have str: "int_toString n = ?H @ [?a, ?b]"
    using k nat_toString_split_100 [of k] by (simp add: n int_toString_def)
  have H: "?H \<noteq> []" "list_all (is_digit 10) ?H"
    using nat_toString_decimal [of "k div 100"] by simp_all
  have hourv: "parseInt ?H = Num (n div 100)"
    by (simp add: parseInt_nat_toString n zdiv_int)
  have "(k div 10 mod 10) * 10 + k mod 10 = k mod 100"
    using mod_mult2_eq [of k 10 10] by simp
  then have minv: "parseInt [?a, ?b] = Num (n mod 100)"
    by (simp add: parseInt_two_digits n zmod_int)
  have ab: "list_all (is_digit 10) [?a, ?b]"
    by (simp add: is_digit_digit_char)
  have "k div 100 < 100"
    using k by simp
  then consider (one) h where "?H = [h]" | (two) h1 h2 where "?H = [h1, h2]"
    using nat_toString_one [of "k div 100"] nat_toString_two [of "k div 100"]
    by (cases "k div 100 < 10") auto
  then show ?thesis
  proof cases
    case one
    have h: "is_digit 10 h"
      using H(2) one by simp
    have pieces: "slice 0 2 (padStart 4 (CHR '' '') (int_toString n)) = [CHR '' '', h]"
      "slice 2 4 (padStart 4 (CHR '' '') (int_toString n)) = [?a, ?b]"
      by (simp_all add: str one padStart_def slice_def)
    have "trim [CHR '' '', h] = [h]"
      using is_digit_plain(1) [OF h] by (simp add: trim_def is_ws_def)
    then show ?thesis
      using hourv minv trim_plain [OF ab]
      by (simp add: parseUntisTime_def Let_def pieces one)
  next
    case two
    have pieces: "slice 0 2 (padStart 4 (CHR '' '') (int_toString n)) = ?H"
      "slice 2 4 (padStart 4 (CHR '' '') (int_toString n)) = [?a, ?b]"
      by (simp_all add: str two padStart_def slice_def)
    show ?thesis
      using hourv minv trim_plain [OF ab] trim_plain [OF H(2)]
      by (simp add: parseUntisTime_def Let_def pieces)
  qed
qed

text \<open>Before 01:00 the number has at most two digits, the hour piece is blank, and the
  hour is \<^verbatim>\<open>NaN\<close>.\<close>

lemma parseUntisTime_before_0100:
  assumes "0 \<le> n" and "n < 100"
  shows "hour (parseUntisTime (UNum n)) = NaN"
proof -
  let ?s = "nat_toString (nat n)"
  have len: "length ?s \<le> 2"
    using assms by (intro length_nat_toString_lt_100) simp
  have "4 - length ?s = Suc (Suc (2 - length ?s))"
    using len by simp
  then have "padStart 4 (CHR '' '') ?s
               = CHR '' '' # CHR '' '' # replicate (2 - length ?s) (CHR '' '') @ ?s"
    by (simp add: padStart_def)
  then have "slice 0 2 (padStart 4 (CHR '' '') ?s) = [CHR '' '', CHR '' '']"
    by (simp add: slice_def)
  then have "slice 0 2 (padStart 4 (CHR '' '') (int_toString n)) = [CHR '' '', CHR '' '']"
    using assms by (simp add: int_toString_def)
  then show ?thesis
    by (simp add: parseUntisTime_def Let_def trim_def is_ws_def parseInt_def)
qed

text \<open>
  Claim C2: \<^verbatim>\<open>parseCompactTime\<close> pads its input on the left to four characters,
  splits it into two pieces of two characters and parses them as integers, so that 815
  gives hour 8 and minute 15, and 5 gives hour 0 and minute 5.

  The first example holds (\<open>parseUntisTime_815\<close>). The second does not: the number 5 is
  padded to three spaces and a \<^verbatim>\<open>5\<close>, the hour piece is two spaces, trimmed to the
  empty string, and \<^verbatim>\<open>parseInt('')\<close> is \<^verbatim>\<open>NaN\<close>. The theorem evaluates the source
  at that input.
\<close>

theorem parseUntisTime_5_hour_NaN:
  "parseUntisTime (UNum 5) = \<lparr> hour = NaN, minute = Num 5 \<rparr>"
  by (simp add: parseUntisTime_def string_eval)

subsection \<open>Compact dates\<close>

text \<open>
  Claim C3: at every moment at which it is called, \<^verbatim>\<open>parseCompactDate(20230914)\<close>
  returns the fourteenth of September 2023 with hours, minutes, seconds and milliseconds
  zero; the result does not depend on the current date.

  The moment of the call is \<open>now\<close>, any fields a real moment can have.
\<close>

theorem parseUntisDate_20230914:
  assumes "wf_date now"
  shows "parseUntisDate now (UNum 20230914) =
           ValidDate \<lparr> fullYear = 2023, month = 8, dayOfMonth = 14, hours = 0, minutes = 0,
                       seconds = 0, milliseconds = 0 \<rparr>"
proof -
  have y: "parseInt (slice 0 4 (toString (UNum 20230914))) = Num 2023"
    by (simp add: string_eval)
  have m: "parseInt (slice 4 6 (toString (UNum 20230914))) = Num 9"
    by (simp add: string_eval)
  have d: "parseInt (slice 6 8 (toString (UNum 20230914))) = Num 14"
    by (simp add: string_eval)
  show ?thesis
    using parseUntisDate_upto_28 [OF assms y m d] by simp
qed

text \<open>The call on the 29th of February 2024, at 23:59:59.999.\<close>

theorem parseUntisDate_20230914_witness:
  "wf_date \<lparr> fullYear = 2024, month = 1, dayOfMonth = 29, hours = 23, minutes = 59,
             seconds = 59, milliseconds = 999 \<rparr>
   \<and> parseUntisDate \<lparr> fullYear = 2024, month = 1, dayOfMonth = 29, hours = 23, minutes = 59,
                      seconds = 59, milliseconds = 999 \<rparr> (UNum 20230914)
       = ValidDate \<lparr> fullYear = 2023, month = 8, dayOfMonth = 14, hours = 0, minutes = 0,
                     seconds = 0, milliseconds = 0 \<rparr>"
proof -
  have w: "wf_date \<lparr> fullYear = 2024, month = 1, dayOfMonth = 29, hours = 23, minutes = 59,
                     seconds = 59, milliseconds = 999 \<rparr>"
    by (simp add: wf_date_def daysInMonth_def leap_def)
  show ?thesis
    using w parseUntisDate_20230914 [OF w] by simp
qed

text \<open>
  Claim C4: for every valid calendar date D and every current date,
  \<^verbatim>\<open>parseCompactDate(formatCompactDate(D))\<close> is D.

  The source sets the day of the month on \<^verbatim>\<open>new Date()\<close> before it sets the year and
  the month (lines 64 to 68). Called on the tenth of February 2023 with the text of the
  31st of January 2023, \<^verbatim>\<open>setDate(31)\<close> runs over to the third of March, and the
  result is the third of January.
\<close>

theorem parse_format_jan31_in_february:
  "parseUntisDate
     \<lparr> fullYear = 2023, month = 1, dayOfMonth = 10, hours = 12, minutes = 30,
       seconds = 15, milliseconds = 123 \<rparr>
     (UStr (dateToUntisDate
        (ValidDate \<lparr> fullYear = 2023, month = 0, dayOfMonth = 31, hours = 0, minutes = 0,
                     seconds = 0, milliseconds = 0 \<rparr>) []))
   = ValidDate \<lparr> fullYear = 2023, month = 0, dayOfMonth = 3, hours = 0, minutes = 0,
                 seconds = 0, milliseconds = 0 \<rparr>"
  by (simp add: parseUntisDate_def dateToUntisDate_def Let_def string_eval date_eval)

text \<open>The text that was parsed there.\<close>

lemma dateToUntisDate_jan31:
  "dateToUntisDate
     (ValidDate \<lparr> fullYear = 2023, month = 0, dayOfMonth = 31, hours = 0, minutes = 0,
                  seconds = 0, milliseconds = 0 \<rparr>) [] = ''20230131''"
  by (simp add: dateToUntisDate_def Let_def string_eval)

lemma length_nat_toString_4: "1000 \<le> n \<Longrightarrow> n \<le> 9999 \<Longrightarrow> length (nat_toString n) = 4"
  using nat_toString_split_100 [of n] nat_toString_two [of "n div 100"] by simp

lemma padStart_two_digits:
  "k < 100 \<Longrightarrow>
     padStart 2 (CHR ''0'') (nat_toString k) = [digit_char (k div 10), digit_char (k mod 10)]"
  by (cases "k < 10")
     (simp_all add: nat_toString_one nat_toString_two padStart_def digit_char_def)

text \<open>
  Formatting and parsing again gives the date back, at every moment of the call, for a
  date with a year of four digits and a day of the month up to 28.
\<close>

lemma parse_format_upto_28:
  assumes now: "wf_date now" and f: "wf_date f"
    and year: "1000 \<le> fullYear f" "fullYear f \<le> 9999"
    and day: "dayOfMonth f \<le> 28"
  shows "parseUntisDate now (UStr (dateToUntisDate (ValidDate f) []))
           = ValidDate (f\<lparr> hours := 0, minutes := 0, seconds := 0, milliseconds := 0 \<rparr>)"
proof -
  define y m d where "y = nat (fullYear f)" and "m = nat (month f + 1)"
    and "d = nat (dayOfMonth f)"
  from f have r: "0 \<le> month f" "month f \<le> 11" "1 \<le> dayOfMonth f"
    by (simp_all add: wf_date_def)
  have ints: "fullYear f = int y" "month f + 1 = int m" "dayOfMonth f = int d"
    using year r by (simp_all add: y_def m_def d_def)
  have bounds: "1000 \<le> y" "y \<le> 9999" "m < 100" "d < 100"
    using year r day by (simp_all add: y_def m_def d_def)
  let ?Y = "nat_toString y"
  let ?M = "[digit_char (m div 10), digit_char (m mod 10)]"
  let ?D = "[digit_char (d div 10), digit_char (d mod 10)]"
  have fmt: "dateToUntisDate (ValidDate f) [] = ?Y @ ?M @ ?D"
    using bounds
    by (simp add: dateToUntisDate_def Let_def ints int_toString_def padStart_two_digits
             del: of_nat_add)
  have len: "length ?Y = 4"
    using bounds by (simp add: length_nat_toString_4)
  have py: "parseInt (slice 0 4 (toString (UStr (dateToUntisDate (ValidDate f) []))))
              = Num (fullYear f)"
    by (simp add: fmt slice_def len parseInt_nat_toString ints)
  have two: "parseInt [digit_char (k div 10), digit_char (k mod 10)] = Num (int k)"
    if "k < 100" for k
    using that by (simp add: parseInt_two_digits)
  have pm: "parseInt (slice 4 6 (toString (UStr (dateToUntisDate (ValidDate f) []))))
              = Num (month f + 1)"
    using bounds by (simp add: fmt slice_def len two ints del: of_nat_add)
  have pd: "parseInt (slice 6 8 (toString (UStr (dateToUntisDate (ValidDate f) []))))
              = Num (dayOfMonth f)"
    using bounds by (simp add: fmt slice_def len two ints)
  have "parseUntisDate now (UStr (dateToUntisDate (ValidDate f) []))
          = ValidDate \<lparr> fullYear = fullYear f, month = month f + 1 - 1,
                        dayOfMonth = dayOfMonth f, hours = 0, minutes = 0, seconds = 0,
                        milliseconds = 0 \<rparr>"
    using r day by (intro parseUntisDate_upto_28 [OF now py pm pd]) simp_all
  then show ?thesis
    by (cases f) simp
qed

subsection \<open>Date and time\<close>











text \<open>
  The same in terms of the digits of the date, for a day of the month up to 28 and every
  moment of the call.
\<close>

lemma parseUntisDateTime_upto_28:
  assumes now: "wf_date now"
    and y: "parseInt (slice 0 4 (toString u)) = Num y"
    and m: "parseInt (slice 4 6 (toString u)) = Num m"
    and d: "parseInt (slice 6 8 (toString u)) = Num d"
    and range: "1 \<le> m" "m \<le> 12" "1 \<le> d" "d \<le> 28"
    and t: "parseUntisTime t = \<lparr> hour = Num h, minute = Num mi \<rparr>"
    and time_range: "0 \<le> h" "h \<le> 22" "0 \<le> mi" "mi < 60"
  shows "parseUntisDateTime now u t =
           ValidDate \<lparr> fullYear = y, month = m - 1, dayOfMonth = d, hours = h + 1,
                       minutes = mi, seconds = 0, milliseconds = 0 \<rparr>"
proof -
  have "28 \<le> daysInMonth y (m - 1)"
    by (rule daysInMonth_ge)
  then show ?thesis
    unfolding parseUntisDateTime_def Let_def t parseUntisDate_upto_28 [OF now y m d range]
    using range time_range by (simp add: withTime_in_range)
qed

text \<open>At 23 o'clock the added hour is midnight of the next day, at every moment of the
  call.\<close>

lemma parseUntisDateTime_2330:
  assumes "wf_date now"
  shows "parseUntisDateTime now (UNum 20230228) (UNum 2330) =
           ValidDate \<lparr> fullYear = 2023, month = 2, dayOfMonth = 1, hours = 0,
                       minutes = 30, seconds = 0, milliseconds = 0 \<rparr>"
proof -
  have y: "parseInt (slice 0 4 (toString (UNum 20230228))) = Num 2023"
    by (simp add: string_eval)
  have m: "parseInt (slice 4 6 (toString (UNum 20230228))) = Num 2"
    by (simp add: string_eval)
  have d: "parseInt (slice 6 8 (toString (UNum 20230228))) = Num 28"
    by (simp add: string_eval)
  have t: "parseUntisTime (UNum 2330) = \<lparr> hour = Num 23, minute = Num 30 \<rparr>"
    by (simp add: parseUntisTime_def string_eval)
  have "parseUntisDate now (UNum 20230228) =
          ValidDate \<lparr> fullYear = 2023, month = 1, dayOfMonth = 28, hours = 0, minutes = 0,
                      seconds = 0, milliseconds = 0 \<rparr>"
    using parseUntisDate_upto_28 [OF assms y m d] by simp
  then show ?thesis
    unfolding parseUntisDateTime_def Let_def t by (simp add: date_eval)
qed

section \<open>Properties of the client\<close>

lemmas client_eval = getTimetableWeek_def getTimetableWeek_args_def request_def ex_env_def
  ex_session_def ex_monday_def ex_now_def ex_data_def ex_period_def ex_math_def
  timetable_of_data_def rawPeriods_of_def element_index_def by_type_def by_type_step_def
  by_id_def by_id_step_def subject_of_def resolve_period_def js_sort_def binary_insert_def
  binary_search.simps compare_start_def
  parseUntisDateTime_def parseUntisDate_def parseUntisTime_def dateToUntisDate_def
  timeValue_def dayFromYear_def daysBeforeMonth_def BASE_URL_def Let_def

subsection \<open>The session\<close>

lemma new_WebUntis_unset:
  "new_WebUntis school_arg = Inr c \<Longrightarrow> personId c = None \<and> sessionId c = None"
  by (auto simp: new_WebUntis_def split: if_splits)

text \<open>
  Claim C5: on a client on which \<^verbatim>\<open>authenticate\<close> has not succeeded, so that the
  session id is absent, \<^verbatim>\<open>getAbsences\<close>, \<^verbatim>\<open>getTimetableWeek\<close> (with a date) and
  \<^verbatim>\<open>getCurrentSchoolyear\<close> throw the error for an unauthenticated instance, and no
  request is sent.
\<close>

theorem unauthenticated_calls_send_nothing:
  assumes "sessionId c = None"
  shows "getAbsences e c from_date to_date = (Inl (Error ''Unauthenticated instance''), [])
         \<and> getTimetableWeek e c (Some date) = (Inl (Error ''Unauthenticated instance''), [])
         \<and> getCurrentSchoolyear e c = (Inl (Error ''Unauthenticated instance''), [])"
  using assms by (simp add: getAbsences_def getTimetableWeek_def getCurrentSchoolyear_def)

theorem unauthenticated_calls_send_nothing_witness:
  "sessionId ex_fresh = None
   \<and> getAbsences (ex_env (NotOk [])) ex_fresh (Some ex_monday) (Some ex_monday)
       = (Inl (Error ''Unauthenticated instance''), [])
   \<and> getTimetableWeek (ex_env (NotOk [])) ex_fresh (Some ex_monday)
       = (Inl (Error ''Unauthenticated instance''), [])
   \<and> getCurrentSchoolyear (ex_env (NotOk [])) ex_fresh
       = (Inl (Error ''Unauthenticated instance''), [])"
proof -
  have unset: "sessionId ex_fresh = None"
    by (simp add: ex_fresh_def)
  show ?thesis
    using unset
      unauthenticated_calls_send_nothing [OF unset, of "ex_env (NotOk [])" "Some ex_monday"
        "Some ex_monday" ex_monday]
    by simp
qed

text \<open>
  Claim C10: \<^verbatim>\<open>getTimetableWeek\<close> looks at its date before it looks at the session.
  Without a date it throws the error for insufficient arguments on every client, an
  unauthenticated one included, and sends nothing.
\<close>

theorem getTimetableWeek_date_checked_first:
  "getTimetableWeek e c None = (Inl (Error ''Insufficient arguments: date required''), [])"
  by (simp add: getTimetableWeek_def)

lemma getTimetableWeek_no_date_fresh_client:
  "getTimetableWeek (ex_env (NotOk [])) ex_fresh None
     = (Inl (Error ''Insufficient arguments: date required''), [])"
  by (simp add: getTimetableWeek_def)

subsection \<open>authenticate\<close>

text \<open>Whatever makes \<^verbatim>\<open>authenticate\<close> throw, the instance is the one before the call.\<close>

lemma authenticate_failure_keeps_client:
  "fst (authenticate e c username password) = Inl err
     \<Longrightarrow> fst (snd (authenticate e c username password)) = c"
  by (auto simp: authenticate_def Let_def split: if_splits sum.splits option.splits)

text \<open>Where it returns, both values were there and are the ones stored.\<close>

lemma authenticate_success_stores:
  assumes "fst (authenticate e c username password) = Inr (sid, pid)"
  shows "fst (snd (authenticate e c username password))
           = c\<lparr> personId := Some pid, sessionId := Some sid \<rparr>
         \<and> sid \<noteq> [] \<and> pid \<noteq> 0"
proof -
  have both: "x = Some (the x)" if "\<not> falsy_str x" for x
    using that by (cases x) auto
  have num: "n = Some (the n)" if "\<not> falsy_num n" for n
    using that by (cases n) auto
  have ne: "the x \<noteq> []" if "\<not> falsy_str x" for x
    using that by (cases x) auto
  have nz: "the n \<noteq> 0" if "\<not> falsy_num n" for n
    using that by (cases n) auto
  show ?thesis
    using assms
    by (auto simp: authenticate_def Let_def both [symmetric] num [symmetric] ne nz
             split: if_splits sum.splits option.splits)
qed

text \<open>
  Claim C9: if the parsed response lacks \<^verbatim>\<open>sessionId\<close> or \<^verbatim>\<open>personId\<close>,
  \<^verbatim>\<open>authenticate\<close> throws and the stored person id and session id are what they were
  before the call; they are assigned only after both values were found.
\<close>

theorem authenticate_missing_value_keeps_client:
  assumes "\<not> falsy_str username" and "\<not> falsy_str password"
    and "request e (authenticate_args e c username password) = Inr j"
    and "auth_of j = Some r"
    and "ar_sessionId r = None \<or> ar_personId r = None"
  shows "authenticate e c username password
           = (Inl (Error ''Missing response data''), c,
              [authenticate_args e c username password])"
  using assms by (auto simp: authenticate_def Let_def)

theorem authenticate_missing_value_keeps_client_witness:
  "\<not> falsy_str (Some ''user'') \<and> \<not> falsy_str (Some ''secret'')
   \<and> request (ex_env (OkJson (AuthBody (Some \<lparr> ar_sessionId = Some ''0123456789ABCDEF'',
                                                ar_personId = None \<rparr>))))
        (authenticate_args
           (ex_env (OkJson (AuthBody (Some \<lparr> ar_sessionId = Some ''0123456789ABCDEF'',
                                               ar_personId = None \<rparr>))))
           ex_fresh (Some ''user'') (Some ''secret''))
       = Inr (AuthBody (Some \<lparr> ar_sessionId = Some ''0123456789ABCDEF'', ar_personId = None \<rparr>))
   \<and> authenticate
        (ex_env (OkJson (AuthBody (Some \<lparr> ar_sessionId = Some ''0123456789ABCDEF'',
                                            ar_personId = None \<rparr>))))
        ex_fresh (Some ''user'') (Some ''secret'')
       = (Inl (Error ''Missing response data''), ex_fresh,
          [authenticate_args
             (ex_env (OkJson (AuthBody (Some \<lparr> ar_sessionId = Some ''0123456789ABCDEF'',
                                                 ar_personId = None \<rparr>))))
             ex_fresh (Some ''user'') (Some ''secret'')])"
proof -
  let ?r = "\<lparr> ar_sessionId = Some ''0123456789ABCDEF'', ar_personId = None \<rparr>"
  let ?e = "ex_env (OkJson (AuthBody (Some ?r)))"
  have u: "\<not> falsy_str (Some ''user'')" and p: "\<not> falsy_str (Some ''secret'')"
    by simp_all
  have resp: "request ?e (authenticate_args ?e ex_fresh (Some ''user'') (Some ''secret''))
                = Inr (AuthBody (Some ?r))"
    by (simp add: request_def ex_env_def)
  have view: "auth_of (AuthBody (Some ?r)) = Some ?r"
    by simp
  have lacks: "ar_sessionId ?r = None \<or> ar_personId ?r = None"
    by simp
  show ?thesis
    using u p resp authenticate_missing_value_keeps_client [OF u p resp view lacks]
    by simp
qed

subsection \<open>The element index\<close>

lemma map_of_put: "map_of (put k v kvs) k' = (if k' = k then Some v else map_of kvs k')"
  by (induction kvs) auto

lemma map_of_by_type_step:
  "map_of (by_type_step acc x) t =
     (if el_type x = t
      then Some (case map_of acc t of None \<Rightarrow> [x] | Some same \<Rightarrow> same @ [x])
      else map_of acc t)"
  by (simp add: by_type_step_def map_of_put split: option.splits)

lemma map_of_by_id_step:
  "map_of (by_id_step acc x) i =
     (case map_of acc i of
        None \<Rightarrow> (if el_id x = i then Some x else None)
      | Some first \<Rightarrow> Some first)"
  by (auto simp add: by_id_step_def map_of_put split: option.splits)

lemma map_of_by_type_acc:
  "map_of (foldl by_type_step acc els) t =
     (case map_of acc t of
        None \<Rightarrow> (if filter (\<lambda>e. el_type e = t) els = [] then None
                 else Some (filter (\<lambda>e. el_type e = t) els))
      | Some same \<Rightarrow> Some (same @ filter (\<lambda>e. el_type e = t) els))"
proof (induction els arbitrary: acc)
  case Nil
  then show ?case by (simp split: option.splits)
next
  case (Cons x xs)
  show ?case
    by (simp add: Cons.IH map_of_by_type_step split: option.splits)
qed

lemma map_of_by_type:
  "map_of (by_type els) t =
     (if filter (\<lambda>e. el_type e = t) els = [] then None
      else Some (filter (\<lambda>e. el_type e = t) els))"
  by (simp add: by_type_def map_of_by_type_acc)

lemma map_of_by_id_acc:
  "map_of (foldl by_id_step acc els) i =
     (case map_of acc i of None \<Rightarrow> find (\<lambda>e. el_id e = i) els | Some first \<Rightarrow> Some first)"
proof (induction els arbitrary: acc)
  case Nil
  then show ?case by (simp split: option.splits)
next
  case (Cons x xs)
  show ?case
    by (simp add: Cons.IH map_of_by_id_step split: option.splits)
qed

lemma map_of_by_id: "map_of (by_id els) i = find (\<lambda>e. el_id e = i) els"
  by (simp add: by_id_def map_of_by_id_acc)

lemma find_filter: "find P (filter Q xs) = find (\<lambda>x. Q x \<and> P x) xs"
  by (induction xs) auto

lemma map_of_map_values: "map_of (map (\<lambda>(k, v). (k, f v)) kvs) k = map_option f (map_of kvs k)"
  by (induction kvs) auto

text \<open>The index holds, for a type and an id, the first raw element that has both.\<close>

lemma lookup_element_index:
  "lookup_element (element_index els) t i = find (\<lambda>e. el_type e = t \<and> el_id e = i) els"
proof (cases "filter (\<lambda>e. el_type e = t) els = []")
  case True
  then have "find (\<lambda>e. el_type e = t \<and> el_id e = i) els = None"
    by (auto simp: find_None_iff filter_empty_conv)
  with True show ?thesis
    by (simp add: lookup_element_def element_index_def map_of_map_values map_of_by_type)
next
  case False
  then show ?thesis
    by (simp add: lookup_element_def element_index_def map_of_map_values map_of_by_type
          map_of_by_id find_filter)
qed

subsection \<open>Periods without a subject\<close>

lemma subject_of_error: "subject_of idx rawPer = Inl err \<Longrightarrow> err = TypeError"
  by (auto simp: subject_of_def split: list.splits option.splits)

lemma resolve_period_error: "resolve_period now idx rawPer = Inl err \<Longrightarrow> err = TypeError"
  by (auto simp: resolve_period_def Let_def split: sum.splits dest: subject_of_error)

lemma resolve_period_missing:
  "subject_of idx rawPer = Inl TypeError \<Longrightarrow> resolve_period now idx rawPer = Inl TypeError"
  by (simp add: resolve_period_def Let_def)

lemma resolve_periods_missing:
  assumes "rawPer \<in> set raws" and "subject_of idx rawPer = Inl TypeError"
  shows "resolve_periods now idx raws = Inl TypeError"
  using assms
proof (induction raws)
  case Nil
  then show ?case by simp
next
  case (Cons first rest)
  show ?case
  proof (cases "resolve_period now idx first")
    case (Inl err)
    then show ?thesis
      using resolve_period_error [OF Inl] by simp
  next
    case (Inr entry)
    with Cons.prems have "rawPer \<in> set rest"
      using resolve_period_missing [of idx rawPer now] by auto
    then have "resolve_periods now idx rest = Inl TypeError"
      using Cons.IH Cons.prems(2) by simp
    with Inr show ?thesis by simp
  qed
qed

lemma subject_of_missing:
  assumes "filter (\<lambda>r. ref_type r = 3) (p_elements rawPer) = []
           \<or> (\<exists>r rest. filter (\<lambda>r. ref_type r = 3) (p_elements rawPer) = r # rest
                 \<and> lookup_element idx 3 (ref_id r) = None)"
  shows "subject_of idx rawPer = Inl TypeError"
  using assms
  by (auto simp: subject_of_def lookup_element_def split: option.splits list.splits)

text \<open>
  Claim C1: for a raw period whose element references hold no entry of type 3, or whose
  first reference of type 3 has an id that is not in the index, \<^verbatim>\<open>getTimetableWeek\<close>
  fails with a deliberate error for the missing reference, not with a crash from reading
  a property of \<^verbatim>\<open>undefined\<close>, and not with an empty subject.

  The source does not look at the reference before it uses it. On the payload
  \<open>ex_no_subject\<close> the filter of line 376 is empty, its element 0 is \<^verbatim>\<open>undefined\<close>, and
  reading \<^verbatim>\<open>.id\<close> throws the runtime's TypeError.
\<close>

theorem getTimetableWeek_no_subject_crashes:
  "fst (getTimetableWeek (ex_env (OkJson (TimetableBody (Some ex_no_subject)))) ex_session
          (Some ex_monday)) = Inl TypeError
   \<and> \<not> deliberate (fst (getTimetableWeek (ex_env (OkJson (TimetableBody (Some ex_no_subject))))
                           ex_session (Some ex_monday)))"
  by (simp add: client_eval ex_no_subject_def string_eval date_eval)

text \<open>
  Claim C1 as amended: for such a period, on an authenticated client whose request is
  answered with the payload, \<^verbatim>\<open>getTimetableWeek\<close> throws the TypeError of the read of
  \<^verbatim>\<open>undefined\<close>, after its one request; it returns no entries, so none with an empty
  subject.
\<close>

theorem getTimetableWeek_missing_subject:
  assumes auth: "\<not> falsy_str (sessionId c)"
    and resp: "request e (getTimetableWeek_args e c date) = Inr j"
    and data: "timetable_of j = Some d"
    and raws: "rawPeriods_of d = Some raws"
    and per: "rawPer \<in> set raws"
    and missing:
      "filter (\<lambda>r. ref_type r = 3) (p_elements rawPer) = []
       \<or> (\<exists>r rest. filter (\<lambda>r. ref_type r = 3) (p_elements rawPer) = r # rest
             \<and> lookup_element (element_index (elements d)) 3 (ref_id r) = None)"
  shows "getTimetableWeek e c (Some date) = (Inl TypeError, [getTimetableWeek_args e c date])"
proof -
  have "subject_of (element_index (elements d)) rawPer = Inl TypeError"
    using missing by (rule subject_of_missing)
  then have "resolve_periods (today e) (element_index (elements d)) raws = Inl TypeError"
    using per by (intro resolve_periods_missing)
  then have "timetable_of_data (today e) d = Inl TypeError"
    using raws by (simp add: timetable_of_data_def Let_def)
  then show ?thesis
    using auth resp data by (simp add: getTimetableWeek_def Let_def)
qed


theorem getTimetableWeek_missing_subject_witness:
  "\<not> falsy_str (sessionId ex_session)
   \<and> rawPeriods_of ex_unknown_subject
       = Some [ex_period 800 845 [\<lparr> ref_type = 3, ref_id = 9 \<rparr>],
               ex_period 900 945 [\<lparr> ref_type = 1, ref_id = 8 \<rparr>, \<lparr> ref_type = 3, ref_id = 8 \<rparr>]]
   \<and> filter (\<lambda>r. ref_type r = 3)
        (p_elements (ex_period 900 945 [\<lparr> ref_type = 1, ref_id = 8 \<rparr>,
                                        \<lparr> ref_type = 3, ref_id = 8 \<rparr>]))
       = [\<lparr> ref_type = 3, ref_id = 8 \<rparr>]
   \<and> lookup_element (element_index (elements ex_unknown_subject)) 3 8 = None
   \<and> getTimetableWeek (ex_env (OkJson (TimetableBody (Some ex_unknown_subject)))) ex_session
        (Some ex_monday)
       = (Inl TypeError,
          [getTimetableWeek_args (ex_env (OkJson (TimetableBody (Some ex_unknown_subject))))
             ex_session ex_monday])"
proof -
  let ?e = "ex_env (OkJson (TimetableBody (Some ex_unknown_subject)))"
  let ?p1 = "ex_period 800 845 [\<lparr> ref_type = 3, ref_id = 9 \<rparr>]"
  let ?p2 = "ex_period 900 945 [\<lparr> ref_type = 1, ref_id = 8 \<rparr>, \<lparr> ref_type = 3, ref_id = 8 \<rparr>]"
  have auth: "\<not> falsy_str (sessionId ex_session)"
    by (simp add: ex_session_def)
  have resp: "request ?e (getTimetableWeek_args ?e ex_session ex_monday)
                = Inr (TimetableBody (Some ex_unknown_subject))"
    by (simp add: request_def ex_env_def)
  have data: "timetable_of (TimetableBody (Some ex_unknown_subject)) = Some ex_unknown_subject"
    by simp
  have raws: "rawPeriods_of ex_unknown_subject = Some [?p1, ?p2]"
    by (simp add: rawPeriods_of_def ex_unknown_subject_def ex_data_def)
  have per: "?p2 \<in> set [?p1, ?p2]"
    by simp
  have refs: "filter (\<lambda>r. ref_type r = 3) (p_elements ?p2) = [\<lparr> ref_type = 3, ref_id = 8 \<rparr>]"
    by (simp add: ex_period_def)
  have absent: "lookup_element (element_index (elements ex_unknown_subject)) 3 8 = None"
    by (simp add: lookup_element_index ex_unknown_subject_def ex_data_def ex_math_def)
  have missing:
    "filter (\<lambda>r. ref_type r = 3) (p_elements ?p2) = []
     \<or> (\<exists>r rest. filter (\<lambda>r. ref_type r = 3) (p_elements ?p2) = r # rest
           \<and> lookup_element (element_index (elements ex_unknown_subject)) 3 (ref_id r) = None)"
    using refs absent by simp
  show ?thesis
    using auth raws refs absent
      getTimetableWeek_missing_subject [OF auth resp data raws per missing]
    by simp
qed

subsection \<open>The empty payload\<close>

text \<open>
  Claim C8: when the raw weekly payload is empty, with no elements and no periods,
  \<^verbatim>\<open>getTimetableWeek\<close> returns an empty array and throws nothing.

  The periods are the array that \<^verbatim>\<open>data.elementPeriods[data.elementIds[0]]\<close> reads
  (line 341): the payload has no periods where that array is there and is empty.
\<close>

theorem getTimetableWeek_empty_payload:
  assumes auth: "\<not> falsy_str (sessionId c)"
    and resp: "request e (getTimetableWeek_args e c date) = Inr j"
    and data: "timetable_of j = Some d"
    and no_elements: "elements d = []"
    and no_periods: "rawPeriods_of d = Some []"
  shows "getTimetableWeek e c (Some date) = (Inr [], [getTimetableWeek_args e c date])"
  using assms by (simp add: getTimetableWeek_def timetable_of_data_def js_sort_def Let_def)


theorem getTimetableWeek_empty_payload_witness:
  "\<not> falsy_str (sessionId ex_session)
   \<and> elements (ex_data [] []) = []
   \<and> rawPeriods_of (ex_data [] []) = Some []
   \<and> getTimetableWeek (ex_env (OkJson (TimetableBody (Some (ex_data [] []))))) ex_session
        (Some ex_monday)
       = (Inr [],
          [getTimetableWeek_args (ex_env (OkJson (TimetableBody (Some (ex_data [] [])))))
             ex_session ex_monday])"
proof -
  let ?e = "ex_env (OkJson (TimetableBody (Some (ex_data [] []))))"
  have auth: "\<not> falsy_str (sessionId ex_session)"
    by (simp add: ex_session_def)
  have resp: "request ?e (getTimetableWeek_args ?e ex_session ex_monday)
                = Inr (TimetableBody (Some (ex_data [] [])))"
    by (simp add: request_def ex_env_def)
  have data: "timetable_of (TimetableBody (Some (ex_data [] []))) = Some (ex_data [] [])"
    by simp
  have no_elements: "elements (ex_data [] []) = []"
    by (simp add: ex_data_def)
  have no_periods: "rawPeriods_of (ex_data [] []) = Some []"
    by (simp add: rawPeriods_of_def ex_data_def)
  show ?thesis
    using auth no_elements no_periods
      getTimetableWeek_empty_payload [OF auth resp data no_elements no_periods]
    by simp
qed

text \<open>A payload without a first element id has no such array, and iterating it throws.\<close>

lemma getTimetableWeek_no_elementIds:
  assumes "\<not> falsy_str (sessionId c)"
    and "request e (getTimetableWeek_args e c date) = Inr j"
    and "timetable_of j = Some d"
    and "elementIds d = []"
  shows "getTimetableWeek e c (Some date) = (Inl TypeError, [getTimetableWeek_args e c date])"
  using assms
  by (simp add: getTimetableWeek_def timetable_of_data_def rawPeriods_of_def Let_def)

subsection \<open>The order of the result\<close>




















text \<open>
  With a period more in front the same Invalid Date ends up last: the first two periods
  are a descending run, which is reversed, and the binary search puts 10:00 in front.
\<close>

lemma getTimetableWeek_ex_four:
  "map_sum id (map startDate)
     (fst (getTimetableWeek (ex_env (OkJson (TimetableBody (Some ex_four)))) ex_session
             (Some ex_monday)))
     = Inr [ex_at 10 0, ex_at 11 0, ex_at 12 0, InvalidDate]"
  by (simp add: client_eval ex_four_def ex_at_def string_eval date_eval)

text \<open>The array returned there: the two entries at 11:00 are in the order of the payload.\<close>

lemma getTimetableWeek_ex_week:
  "fst (getTimetableWeek (ex_env (OkJson (TimetableBody (Some ex_week)))) ex_session
          (Some ex_monday))
     = Inr [ex_entry (ex_at 9 0) (ex_at 9 45) ''Art'',
            ex_entry (ex_at 11 0) (ex_at 11 45) ''Math'',
            ex_entry (ex_at 11 0) (ex_at 11 45) ''Art'']"
  by (simp add: client_eval ex_week_def ex_entry_def ex_at_def string_eval date_eval)

end
